theory Spec2Isabelle
  imports Main
begin

section \<open>Store inventory (app.py): values, errors and outcomes\<close>

text \<open>
  The program is one Python module, \<^verbatim>\<open>app.py\<close>: a price and date codec, an upsert into
  the single table \<^verbatim>\<open>Product\<close> (a peewee model over SQLite), a CSV import at
  start-up and a menu of interactive commands. Strings are \<open>char list\<close>s, a
  character being a code point below 256; Python's unbounded integers are \<open>int\<close>. An exception is a value of \<open>error\<close>;
  a pure function that can raise returns \<open>error + 'a\<close>, one that reads the
  console or writes the table returns an \<open>outcome\<close> with the state it leaves.
\<close>

datatype error =
    ValueError | TypeError | IntegrityError | DoesNotExist
  | FileNotFoundError | EOFError | OverflowError | ProgrammingError | InterfaceError

text \<open>
  \<open>Diverge\<close> is a loop that never ends: \<^verbatim>\<open>while not valid\<close> around an \<^verbatim>\<open>input()\<close> whose
  \<^verbatim>\<open>EOFError\<close> a bare \<^verbatim>\<open>except:\<close> swallows.
\<close>

datatype 'a outcome = Return 'a | Raise error | Diverge

subsection \<open>Python's \<^verbatim>\<open>int(str)\<close> and \<^verbatim>\<open>str(int)\<close>\<close>

definition is_digit :: "char \<Rightarrow> bool" where
  "is_digit c = (let n = (of_char c :: nat) in 48 \<le> n \<and> n \<le> 57)"

definition digit_val :: "char \<Rightarrow> int" where
  "digit_val c = int (of_char c) - 48"

text \<open>
  The characters \<^verbatim>\<open>int\<close> skips around a number: tab to carriage return, the space,
  and the two white-space characters of the upper half, U+0085 and U+00A0.
\<close>

definition is_space :: "char \<Rightarrow> bool" where
  "is_space c =
     (let n = (of_char c :: nat) in (9 \<le> n \<and> n \<le> 13) \<or> n = 32 \<or> n = 133 \<or> n = 160)"

definition strip :: "string \<Rightarrow> string" where
  "strip s = rev (dropWhile is_space (rev (dropWhile is_space s)))"

text \<open>
  The digits after the first one: decimal digits, with single underscores allowed
  between two digits (Python 3.6 and later). \<open>acc\<close> is the value read so far.
\<close>

fun digits_value :: "int \<Rightarrow> string \<Rightarrow> int option" where
  "digits_value acc [] = Some acc"
| "digits_value acc [c] = (if is_digit c then Some (acc * 10 + digit_val c) else None)"
| "digits_value acc (c # d # ds) =
     (if is_digit c then digits_value (acc * 10 + digit_val c) (d # ds)
      else if c = CHR ''_'' \<and> is_digit d then digits_value (acc * 10 + digit_val d) ds
      else None)"

text \<open>
  \<^verbatim>\<open>int(s)\<close> for a string, base ten: surrounding white space is dropped, one sign is
  allowed, then at least one digit; anything else raises \<^verbatim>\<open>ValueError\<close>. So does a text
  of more than 4300 digits (\<^verbatim>\<open>sys.get_int_max_str_digits()\<close>, the interpreter's default;
  signs, underscores and white space do not count).
\<close>

definition max_str_digits :: nat where
  "max_str_digits = 4300"

definition py_int :: "string \<Rightarrow> error + int" where
  "py_int s =
     (case strip s of
        [] \<Rightarrow> Inl ValueError
      | c # cs \<Rightarrow>
          (let neg = (c = CHR ''-'');
               body = (if c = CHR ''-'' \<or> c = CHR ''+'' then cs else c # cs)
           in case body of
                [] \<Rightarrow> Inl ValueError
              | d # ds \<Rightarrow>
                  if is_digit d
                  then (case digits_value (digit_val d) ds of
                          None \<Rightarrow> Inl ValueError
                        | Some v \<Rightarrow>
                            if max_str_digits < length (filter is_digit body)
                            then Inl ValueError
                            else Inr (if neg then - v else v))
                  else Inl ValueError))"

definition digit_char :: "nat \<Rightarrow> char" where
  "digit_char n = ''0123456789'' ! n"

fun digits_of_nat :: "nat \<Rightarrow> string" where
  "digits_of_nat n =
     (if n < 10 then [digit_char n] else digits_of_nat (n div 10) @ [digit_char (n mod 10)])"

declare digits_of_nat.simps [simp del]

text \<open>
  \<^verbatim>\<open>str(i)\<close> for an integer. (The interpreter refuses to render an integer of more than
  4300 digits; the integers this program renders are the codec's cents and 64-bit
  cells.)
\<close>

definition py_str :: "int \<Rightarrow> string" where
  "py_str i = (if i < 0 then CHR ''-'' # digits_of_nat (nat (- i)) else digits_of_nat (nat i))"

text \<open>The number a string of decimal digits denotes, read left to right.\<close>

definition dec_value :: "string \<Rightarrow> int" where
  "dec_value ds = foldl (\<lambda>a c. a * 10 + digit_val c) 0 ds"

definition purely_numeric :: "string \<Rightarrow> bool" where
  "purely_numeric s = (s \<noteq> [] \<and> list_all is_digit s)"

section \<open>The price codec\<close>

text \<open>
  \<^verbatim>\<open>re.sub('[\$\.]', '', pricestr)\<close> deletes every dollar sign and every point,
  wherever they stand; \<^verbatim>\<open>re.sub('[\$]', '', pricestr)\<close> every dollar sign.
\<close>

definition format_price_str_to_int :: "string \<Rightarrow> error + int" where
  "format_price_str_to_int pricestr =
     (if CHR ''.'' \<in> set pricestr
      then py_int (filter (\<lambda>c. c \<noteq> CHR ''$'' \<and> c \<noteq> CHR ''.'') pricestr)
      else (case py_int (filter (\<lambda>c. c \<noteq> CHR ''$'') pricestr) of
              Inl e \<Rightarrow> Inl e
            | Inr v \<Rightarrow> Inr (v * 100)))"

text \<open>
  \<^verbatim>\<open>pricestr[:len(pricestr)-2]\<close> and \<^verbatim>\<open>pricestr[-2:]\<close> are reached with a length of
  three or more, where they are \<open>take\<close> and \<open>drop\<close> of the length less two.
\<close>

definition format_price_int_to_str :: "int \<Rightarrow> string" where
  "format_price_int_to_str price =
     (let pricestr = py_str price in
      if length pricestr = 1 then ''$0.0'' @ pricestr
      else if length pricestr = 2 then ''$0.'' @ pricestr
      else ''$'' @ take (length pricestr - 2) pricestr @ ''.''
             @ drop (length pricestr - 2) pricestr)"

text \<open>What is left of a price text once the substitution has run.\<close>

definition remaining_text :: "string \<Rightarrow> string" where
  "remaining_text s =
     (if CHR ''.'' \<in> set s then filter (\<lambda>c. c \<noteq> CHR ''$'' \<and> c \<noteq> CHR ''.'') s
      else filter (\<lambda>c. c \<noteq> CHR ''$'') s)"

section \<open>The date codec\<close>

text \<open>A naive \<^verbatim>\<open>datetime\<close>; \<^verbatim>\<open>>\<close> compares the fields in this order.\<close>

record datetime =
  year :: int
  month :: int
  day :: int
  hour :: int
  minute :: int
  second :: int
  microsecond :: int

definition datetime_key :: "datetime \<Rightarrow> int list" where
  "datetime_key t = [year t, month t, day t, hour t, minute t, second t, microsecond t]"

fun lex_less :: "int list \<Rightarrow> int list \<Rightarrow> bool" where
  "lex_less [] [] = False"
| "lex_less [] (y # ys) = True"
| "lex_less (x # xs) [] = False"
| "lex_less (x # xs) (y # ys) = (x < y \<or> (x = y \<and> lex_less xs ys))"

definition datetime_gt :: "datetime \<Rightarrow> datetime \<Rightarrow> bool" where
  "datetime_gt a b = lex_less (datetime_key b) (datetime_key a)"

definition is_leap :: "int \<Rightarrow> bool" where
  "is_leap y = (y mod 4 = 0 \<and> (y mod 100 \<noteq> 0 \<or> y mod 400 = 0))"

definition days_in_month :: "int \<Rightarrow> int \<Rightarrow> int" where
  "days_in_month y m =
     (if m = 2 then (if is_leap y then 29 else 28)
      else if m = 4 \<or> m = 6 \<or> m = 9 \<or> m = 11 then 30 else 31)"

text \<open>
  \<^verbatim>\<open>datetime.strptime(s, '%m/%d/%Y')\<close>. The library turns the format into the regular
  expression
  \<^verbatim>\<open>(1[0-2]|0[1-9]|[1-9])/(3[0-1]|[1-2]\d|0[1-9]|[1-9]| [1-9])/(\d\d\d\d)\<close>,
  matches it at the start of the string, refuses text left over after the match, and
  builds the date, which refuses year 0 and a day the month does not have. The
  alternatives of a directive are tried in order, the next one when the rest of the
  pattern fails after it: \<open>first_match\<close>.
\<close>

fun first_match :: "('a \<times> string) list \<Rightarrow> ('a \<Rightarrow> string \<Rightarrow> 'b option) \<Rightarrow> 'b option" where
  "first_match [] k = None"
| "first_match ((v, rest) # alts) k =
     (case k v rest of Some r \<Rightarrow> Some r | None \<Rightarrow> first_match alts k)"

definition nonzero_digit :: "char \<Rightarrow> bool" where
  "nonzero_digit c = (is_digit c \<and> c \<noteq> CHR ''0'')"

definition month_alts :: "string \<Rightarrow> (int \<times> string) list" where
  "month_alts s =
     (case s of
        c # d # r \<Rightarrow>
          (if c = CHR ''1'' \<and> d \<in> set ''012'' then [(10 + digit_val d, r)] else [])
          @ (if c = CHR ''0'' \<and> nonzero_digit d then [(digit_val d, r)] else [])
      | _ \<Rightarrow> [])
     @ (case s of c # r \<Rightarrow> (if nonzero_digit c then [(digit_val c, r)] else []) | _ \<Rightarrow> [])"

definition day_alts :: "string \<Rightarrow> (int \<times> string) list" where
  "day_alts s =
     (case s of
        c # d # r \<Rightarrow>
          (if c = CHR ''3'' \<and> d \<in> set ''01'' then [(30 + digit_val d, r)] else [])
          @ (if c \<in> set ''12'' \<and> is_digit d then [(digit_val c * 10 + digit_val d, r)] else [])
          @ (if c = CHR ''0'' \<and> nonzero_digit d then [(digit_val d, r)] else [])
      | _ \<Rightarrow> [])
     @ (case s of c # r \<Rightarrow> (if nonzero_digit c then [(digit_val c, r)] else []) | _ \<Rightarrow> [])
     @ (case s of
          c # d # r \<Rightarrow> (if c = CHR '' '' \<and> nonzero_digit d then [(digit_val d, r)] else [])
        | _ \<Rightarrow> [])"

definition year_alts :: "string \<Rightarrow> (int \<times> string) list" where
  "year_alts s =
     (case s of
        a # b # c # d # r \<Rightarrow>
          (if is_digit a \<and> is_digit b \<and> is_digit c \<and> is_digit d
           then [(dec_value [a, b, c, d], r)] else [])
      | _ \<Rightarrow> [])"

definition slash :: "string \<Rightarrow> string option" where
  "slash s = (case s of c # r \<Rightarrow> (if c = CHR ''/'' then Some r else None) | [] \<Rightarrow> None)"

definition match_mdY :: "string \<Rightarrow> ((int \<times> int \<times> int) \<times> string) option" where
  "match_mdY s =
     first_match (month_alts s) (\<lambda>m r1.
       case slash r1 of None \<Rightarrow> None
       | Some r2 \<Rightarrow>
           first_match (day_alts r2) (\<lambda>d r3.
             case slash r3 of None \<Rightarrow> None
             | Some r4 \<Rightarrow> first_match (year_alts r4) (\<lambda>y r5. Some ((m, d, y), r5))))"

definition strptime_mdY :: "string \<Rightarrow> error + datetime" where
  "strptime_mdY s =
     (case match_mdY s of
        None \<Rightarrow> Inl ValueError
      | Some ((m, d, y), rest) \<Rightarrow>
          if rest \<noteq> [] then Inl ValueError
          else if y < 1 \<or> days_in_month y m < d then Inl ValueError
          else Inr \<lparr>year = y, month = m, day = d, hour = 0, minute = 0, second = 0,
                    microsecond = 0\<rparr>)"

text \<open>
  \<^verbatim>\<open>format_date_str_to_datetime(datestr=None)\<close>: \<^verbatim>\<open>if datestr\<close> is false for \<^verbatim>\<open>None\<close> and for
  the empty string; \<open>now\<close> is what \<^verbatim>\<open>datetime.now()\<close> returns at the call.
\<close>

definition format_date_str_to_datetime :: "datetime \<Rightarrow> string option \<Rightarrow> error + datetime" where
  "format_date_str_to_datetime now datestr =
     (case datestr of
        None \<Rightarrow> Inr now
      | Some s \<Rightarrow> if s = [] then Inr now else strptime_mdY s)"

definition pad2 :: "int \<Rightarrow> string" where
  "pad2 n = (if n < 10 then CHR ''0'' # py_str n else py_str n)"

text \<open>
  \<^verbatim>\<open>datetime.strftime(dt, '%m/%d/%Y')\<close>: month and day as two digits, zero-padded; the
  year in decimal (four digits from the year 1000 on).
\<close>

definition strftime_mdY :: "datetime \<Rightarrow> string" where
  "strftime_mdY dt = pad2 (month dt) @ ''/'' @ pad2 (day dt) @ ''/'' @ py_str (year dt)"

text \<open>
  \<^verbatim>\<open>def format_date_datetime_to_str(dt=datetime.now())\<close>: Python evaluates a default
  argument once, when the \<^verbatim>\<open>def\<close> statement runs, and keeps the value in the function
  object. \<open>import_app t\<close> is the module as loaded when the clock showed \<open>t\<close>. A call is
  made at a moment of its own, \<open>now\<close>, and passes \<open>Some dt\<close>, or \<open>None\<close> for no argument;
  the body calls no clock, so \<open>now\<close> does not occur on the right.
\<close>

record app_module =
  dt_default :: datetime

definition import_app :: "datetime \<Rightarrow> app_module" where
  "import_app t_load = \<lparr>dt_default = t_load\<rparr>"

definition format_date_datetime_to_str ::
  "app_module \<Rightarrow> datetime \<Rightarrow> datetime option \<Rightarrow> string" where
  "format_date_datetime_to_str app now dt =
     strftime_mdY (case dt of None \<Rightarrow> dt_default app | Some t \<Rightarrow> t)"

text \<open>
  The calendar day of a timestamp, and the field ranges every \<^verbatim>\<open>datetime\<close> keeps.
\<close>

definition date_part :: "datetime \<Rightarrow> int \<times> int \<times> int" where
  "date_part t = (year t, month t, day t)"

definition valid_date :: "datetime \<Rightarrow> bool" where
  "valid_date t =
     (1 \<le> year t \<and> year t \<le> 9999 \<and> 1 \<le> month t \<and> month t \<le> 12
      \<and> 1 \<le> day t \<and> day t \<le> days_in_month (year t) (month t))"

section \<open>The table \<^verbatim>\<open>Product\<close>\<close>

text \<open>
  The values the quantity of the dictionary \<^verbatim>\<open>record\<close> takes on the paths of this
  program: \<^verbatim>\<open>None\<close> (a short CSV row), an integer (the console), a string (a CSV cell).
\<close>

datatype pyval = PNone | PInt int | PStr string

text \<open>
  What a column of integer affinity holds, as the program reads it back: an integer, or
  a text.
\<close>

datatype cell = CInt int | CText string

text \<open>
  Two things are the libraries' and not this program's, and are left open.
  \<open>text_affinity\<close>: what SQLite makes of a text bound to an integer column (it keeps it as
  text unless it reads as a number, and a number may be a floating-point one), as read
  back. \<open>tuple_error\<close>: the exception for a tuple in an integer field, \<^verbatim>\<open>TypeError\<close> from
  \<^verbatim>\<open>int()\<close> in peewee 3, the driver's binding error in peewee 4.
\<close>

record library =
  text_affinity :: "string \<Rightarrow> cell"
  tuple_error :: error

text \<open>
  A stored row. \<^verbatim>\<open>product_id = AutoField()\<close> is SQLite's integer primary key;
  \<^verbatim>\<open>product_name = CharField()\<close> carries no \<^verbatim>\<open>unique=True\<close>, so the table has no
  uniqueness constraint but the primary key's; every column is \<^verbatim>\<open>NOT NULL\<close>, peewee's
  default.
\<close>

record product =
  product_id :: int
  product_name :: string
  product_quantity :: cell
  product_price :: int
  date_updated :: datetime

type_synonym table = "product list"

text \<open>
  \<^verbatim>\<open>IntegerField.db_value\<close>: \<^verbatim>\<open>None\<close> stays \<^verbatim>\<open>None\<close>; anything else goes through
  \<^verbatim>\<open>int(value)\<close>, and a string that \<^verbatim>\<open>int\<close> refuses is passed on as it is (the field
  catches the \<^verbatim>\<open>ValueError\<close>).
\<close>

definition IntegerField_db_value :: "pyval \<Rightarrow> pyval" where
  "IntegerField_db_value v =
     (case v of
        PNone \<Rightarrow> PNone
      | PInt i \<Rightarrow> PInt i
      | PStr s \<Rightarrow> (case py_int s of Inl e \<Rightarrow> PStr s | Inr i \<Rightarrow> PInt i))"

text \<open>
  SQLite integers are 64-bit and signed; the driver raises \<^verbatim>\<open>OverflowError\<close> on a
  Python integer outside that range.
\<close>

definition sqlite_integer :: "int \<Rightarrow> bool" where
  "sqlite_integer i = (- (2 ^ 63) \<le> i \<and> i < 2 ^ 63)"

text \<open>
  Binding a converted value to an integer column: \<open>None\<close> is \<^verbatim>\<open>NULL\<close>; an integer is
  range-checked; a text is stored as the column's affinity leaves it.
\<close>

definition sqlite_bind :: "library \<Rightarrow> pyval \<Rightarrow> error + cell option" where
  "sqlite_bind lib v =
     (case v of
        PNone \<Rightarrow> Inr None
      | PInt i \<Rightarrow> if sqlite_integer i then Inr (Some (CInt i)) else Inl OverflowError
      | PStr s \<Rightarrow> Inr (Some (text_affinity lib s)))"

text \<open>
  The key a new row gets: one more than the largest key in the table, 1 in an empty
  table (rows are never deleted, and the largest 64-bit key is out of reach).
\<close>

fun max_id :: "table \<Rightarrow> int" where
  "max_id [] = 0"
| "max_id [r] = product_id r"
| "max_id (r # rs) = max (product_id r) (max_id rs)"

definition next_id :: "table \<Rightarrow> int" where
  "next_id tbl = (if tbl = [] then 1 else max_id tbl + 1)"

text \<open>
  \<^verbatim>\<open>Product.create(product_name=..., product_quantity=..., product_price=...,
  date_updated=...)\<close>: one \<^verbatim>\<open>INSERT\<close>. The price is an integer on every path (the
  decoder's result), the name a string or \<^verbatim>\<open>None\<close>. SQLite raises \<^verbatim>\<open>IntegrityError\<close>
  exactly when a constraint fails, and the only constraints an insert can fail are the
  \<^verbatim>\<open>NOT NULL\<close> ones. An existing row with the same name is no conflict. On an error the
  table is as it was.
\<close>

definition Product_create ::
  "library \<Rightarrow> string option \<Rightarrow> pyval \<Rightarrow> int \<Rightarrow> datetime \<Rightarrow> table
     \<Rightarrow> error + (product \<times> table)" where
  "Product_create lib name quantity price date tbl =
     (case sqlite_bind lib (IntegerField_db_value quantity) of
        Inl e \<Rightarrow> Inl e
      | Inr q \<Rightarrow>
          if \<not> sqlite_integer price then Inl OverflowError
          else (case (name, q) of
                  (Some n, Some qc) \<Rightarrow>
                    (let row = \<lparr>product_id = next_id tbl, product_name = n,
                                product_quantity = qc, product_price = price,
                                date_updated = date\<rparr>
                     in Inr (row, tbl @ [row]))
                | _ \<Rightarrow> Inl IntegrityError))"

text \<open>
  \<^verbatim>\<open>Product.get(product_name=...)\<close>: the first row with that name, \<^verbatim>\<open>DoesNotExist\<close> when
  there is none (no row has the name \<^verbatim>\<open>NULL\<close>).
\<close>

definition Product_get_by_name :: "string option \<Rightarrow> table \<Rightarrow> error + product" where
  "Product_get_by_name name tbl =
     (case name of
        None \<Rightarrow> Inl DoesNotExist
      | Some n \<Rightarrow>
          (case find (\<lambda>r. product_name r = n) tbl of
             None \<Rightarrow> Inl DoesNotExist
           | Some r \<Rightarrow> Inr r))"

text \<open>\<^verbatim>\<open>Product.get(Product.product_id == id)\<close>.\<close>

definition Product_get_by_id :: "int \<Rightarrow> table \<Rightarrow> error + product" where
  "Product_get_by_id i tbl =
     (if \<not> sqlite_integer i then Inl OverflowError
      else (case find (\<lambda>r. product_id r = i) tbl of
              None \<Rightarrow> Inl DoesNotExist
            | Some r \<Rightarrow> Inr r))"

text \<open>
  A model instance in memory. An attribute takes whatever is assigned to it and is
  converted only when \<^verbatim>\<open>save()\<close> writes it: \<open>Plain v\<close> is the value \<open>v\<close>, \<open>Tuple1 v\<close> the
  one-element tuple \<^verbatim>\<open>(v,)\<close>.
\<close>

datatype 'a attr = Plain 'a | Tuple1 'a

record product_instance =
  inst_product_id :: int
  inst_product_name :: string
  inst_product_quantity :: "pyval attr"
  inst_product_price :: "int attr"
  inst_date_updated :: datetime

definition cell_value :: "cell \<Rightarrow> pyval" where
  "cell_value c = (case c of CInt i \<Rightarrow> PInt i | CText s \<Rightarrow> PStr s)"

definition instance_of :: "product \<Rightarrow> product_instance" where
  "instance_of r =
     \<lparr>inst_product_id = product_id r, inst_product_name = product_name r,
      inst_product_quantity = Plain (cell_value (product_quantity r)),
      inst_product_price = Plain (product_price r), inst_date_updated = date_updated r\<rparr>"

text \<open>
  \<^verbatim>\<open>save()\<close> on an instance that has its key: one \<^verbatim>\<open>UPDATE\<close> of the row with that
  key, all columns. A tuple in an integer field ends the call before anything is
  written.
\<close>

definition Product_save :: "library \<Rightarrow> product_instance \<Rightarrow> table \<Rightarrow> error + table" where
  "Product_save lib x tbl =
     (case (inst_product_quantity x, inst_product_price x) of
        (Plain quantity, Plain price) \<Rightarrow>
          (case sqlite_bind lib (IntegerField_db_value quantity) of
             Inl e \<Rightarrow> Inl e
           | Inr q \<Rightarrow>
               if \<not> sqlite_integer price then Inl OverflowError
               else (case q of
                       None \<Rightarrow> Inl IntegrityError
                     | Some qc \<Rightarrow>
                         Inr (map (\<lambda>r. if product_id r = inst_product_id x
                                        then \<lparr>product_id = inst_product_id x,
                                              product_name = inst_product_name x,
                                              product_quantity = qc, product_price = price,
                                              date_updated = inst_date_updated x\<rparr>
                                        else r) tbl)))
      | _ \<Rightarrow> Inl (tuple_error lib))"

text \<open>
  The dictionary \<^verbatim>\<open>record\<close> that \<^verbatim>\<open>add_record_to_db\<close> receives, with its four keys. Both
  callers set all four: the name is a string, or \<^verbatim>\<open>None\<close> where a CSV row is short;
  the price is the decoder's integer; the date is a \<^verbatim>\<open>datetime\<close>.
\<close>

record record_dict =
  rec_product_name :: "string option"
  rec_product_quantity :: pyval
  rec_product_price :: int
  rec_date_updated :: datetime

text \<open>
  \<^verbatim>\<open>add_record_to_db(record)\<close>. The handler runs on \<^verbatim>\<open>IntegrityError\<close> only. In it, the
  two assignments end in a comma, so each stores a one-element tuple; the date is
  replaced when the incoming one is later; \<^verbatim>\<open>save()\<close> then converts the attributes.
\<close>

definition add_record_to_db :: "library \<Rightarrow> record_dict \<Rightarrow> table \<Rightarrow> error + table" where
  "add_record_to_db lib record tbl =
     (case Product_create lib (rec_product_name record) (rec_product_quantity record)
             (rec_product_price record) (rec_date_updated record) tbl of
        Inr (row, tbl') \<Rightarrow> Inr tbl'
      | Inl e \<Rightarrow>
          if e \<noteq> IntegrityError then Inl e
          else (case Product_get_by_name (rec_product_name record) tbl of
                  Inl e' \<Rightarrow> Inl e'
                | Inr row \<Rightarrow>
                    (let product_record = instance_of row;
                         product_record = product_record
                           \<lparr>inst_product_quantity := Tuple1 (rec_product_quantity record)\<rparr>;
                         product_record = product_record
                           \<lparr>inst_product_price := Tuple1 (rec_product_price record)\<rparr>;
                         product_record =
                           (if datetime_gt (rec_date_updated record)
                                 (inst_date_updated product_record)
                            then product_record\<lparr>inst_date_updated := rec_date_updated record\<rparr>
                            else product_record)
                     in Product_save lib product_record tbl)))"

text \<open>
  What the storage engine guarantees of a table: the keys differ from row to row and
  are 64-bit integers.
\<close>

definition primary_key_ok :: "table \<Rightarrow> bool" where
  "primary_key_ok tbl =
     (distinct (map product_id tbl) \<and> list_all (\<lambda>r. sqlite_integer (product_id r)) tbl)"

section \<open>The console, the seed file and the commands\<close>

text \<open>
  One row of \<^verbatim>\<open>inventory.csv\<close> as \<^verbatim>\<open>csv.DictReader\<close> yields it, for a file whose header
  names the four columns: every value is a string, or \<^verbatim>\<open>None\<close> where the row is
  shorter than the header.
\<close>

record csv_row =
  csv_product_name :: "string option"
  csv_product_price :: "string option"
  csv_product_quantity :: "string option"
  csv_date_updated :: "string option"

text \<open>
  What the commands read and write: the table, the lines still to come on the console,
  the lines written to it (prompts included), the value of \<^verbatim>\<open>datetime.now()\<close>, and the
  rows of \<^verbatim>\<open>./inventory.csv\<close>, \<open>None\<close> when there is no such file.
\<close>

record world =
  table :: table
  stdin :: "string list"
  stdout :: "string list"
  clock :: datetime
  inventory_csv :: "csv_row list option"

definition print :: "string \<Rightarrow> world \<Rightarrow> world" where
  "print line w = w\<lparr>stdout := stdout w @ [line]\<rparr>"

text \<open>\<^verbatim>\<open>input(prompt)\<close>: writes the prompt, reads a line; \<^verbatim>\<open>EOFError\<close> at the end of input.\<close>

definition input :: "string \<Rightarrow> world \<Rightarrow> string outcome \<times> world" where
  "input prompt w =
     (case stdin w of
        [] \<Rightarrow> (Raise EOFError, print prompt w)
      | line # rest \<Rightarrow> (Return line, print prompt (w\<lparr>stdin := rest\<rparr>)))"

text \<open>
  The body of the \<^verbatim>\<open>for\<close> loop of \<^verbatim>\<open>load_data_from_csv\<close>, row after row. Nothing in it is
  caught but \<^verbatim>\<open>FileNotFoundError\<close>, which nothing in it raises; rows stored before a
  failing one stay stored. \<^verbatim>\<open>'.' in None\<close> is a \<^verbatim>\<open>TypeError\<close>. The quantity is passed on
  as the string the reader yielded.
\<close>

fun import_rows :: "library \<Rightarrow> csv_row list \<Rightarrow> world \<Rightarrow> unit outcome \<times> world" where
  "import_rows lib [] w = (Return (), w)"
| "import_rows lib (product # rest) w =
     (case csv_product_price product of
        None \<Rightarrow> (Raise TypeError, w)
      | Some pricestr \<Rightarrow>
          (case format_price_str_to_int pricestr of
             Inl e \<Rightarrow> (Raise e, w)
           | Inr price \<Rightarrow>
               (case format_date_str_to_datetime (clock w) (csv_date_updated product) of
                  Inl e \<Rightarrow> (Raise e, w)
                | Inr date \<Rightarrow>
                    (case add_record_to_db lib
                            \<lparr>rec_product_name = csv_product_name product,
                             rec_product_quantity =
                               (case csv_product_quantity product of
                                  None \<Rightarrow> PNone | Some q \<Rightarrow> PStr q),
                             rec_product_price = price,
                             rec_date_updated = date\<rparr> (table w) of
                       Inl e \<Rightarrow> (Raise e, w)
                     | Inr tbl \<Rightarrow> import_rows lib rest (w\<lparr>table := tbl\<rparr>)))))"

definition load_data_from_csv :: "library \<Rightarrow> world \<Rightarrow> unit outcome \<times> world" where
  "load_data_from_csv lib w =
     (case inventory_csv w of
        None \<Rightarrow>
          (Return (),
           print ''inventory.csv file not found, no current data loaded to database'' w)
      | Some product_list \<Rightarrow> import_rows lib product_list w)"

text \<open>
  \<^verbatim>\<open>initialize()\<close>: connecting and \<^verbatim>\<open>create_tables(safe=True)\<close> leave an existing table as
  it is, and a new table is the empty list.
\<close>

definition initialize :: "library \<Rightarrow> world \<Rightarrow> unit outcome \<times> world" where
  "initialize lib w = load_data_from_csv lib w"

text \<open>
  \<^verbatim>\<open>re.search('\$?\.?\d+', pricestr)\<close>: somewhere in the string, an optional dollar
  sign, an optional point and at least one digit.
\<close>

definition opt_char :: "char \<Rightarrow> string \<Rightarrow> string list" where
  "opt_char x s = (case s of [] \<Rightarrow> [s] | c # r \<Rightarrow> if c = x then [r, s] else [s])"

definition starts_with_digit :: "string \<Rightarrow> bool" where
  "starts_with_digit s = (case s of [] \<Rightarrow> False | c # r \<Rightarrow> is_digit c)"

definition match_price_here :: "string \<Rightarrow> bool" where
  "match_price_here s =
     list_ex (\<lambda>s1. list_ex starts_with_digit (opt_char (CHR ''.'') s1)) (opt_char (CHR ''$'') s)"

fun re_search_price :: "string \<Rightarrow> bool" where
  "re_search_price [] = False"
| "re_search_price (c # cs) = (match_price_here (c # cs) \<or> re_search_price cs)"

text \<open>
  \<^verbatim>\<open>get_quantity_from_user()\<close>. The bare \<^verbatim>\<open>except:\<close> catches whatever \<^verbatim>\<open>int(input(...))\<close>
  raises: a \<^verbatim>\<open>ValueError\<close> of \<^verbatim>\<open>int\<close>, and the \<^verbatim>\<open>EOFError\<close> of \<^verbatim>\<open>input\<close> too, after which
  every later round raises it again and the loop never ends.
\<close>

function get_quantity_from_user :: "world \<Rightarrow> int outcome \<times> world" where
  "get_quantity_from_user w =
     (case stdin w of
        [] \<Rightarrow> (Diverge, print ''Please enter quantity of product in stock: '' w)
      | line # rest \<Rightarrow>
          (let w1 = print ''Please enter quantity of product in stock: '' (w\<lparr>stdin := rest\<rparr>)
           in case py_int line of
                Inr qty \<Rightarrow> (Return qty, w1)
              | Inl e \<Rightarrow>
                  get_quantity_from_user
                    (print ''Quantity needs to be a number, please retry'' w1)))"
  by pat_completeness auto
termination
  by (relation "measure (\<lambda>w. length (stdin w))") (auto simp: print_def)

declare get_quantity_from_user.simps [simp del]

text \<open>
  \<^verbatim>\<open>get_price_from_user()\<close>. There is no \<^verbatim>\<open>try\<close> here: what \<^verbatim>\<open>input\<close> or
  \<^verbatim>\<open>format_price_str_to_int\<close> raises leaves the function.
\<close>

function get_price_from_user :: "world \<Rightarrow> int outcome \<times> world" where
  "get_price_from_user w =
     (case stdin w of
        [] \<Rightarrow> (Raise EOFError, print ''Please enter product price: '' w)
      | pricestr # rest \<Rightarrow>
          (let w1 = print ''Please enter product price: '' (w\<lparr>stdin := rest\<rparr>)
           in if re_search_price pricestr
              then (case format_price_str_to_int pricestr of
                      Inl e \<Rightarrow> (Raise e, w1)
                    | Inr price \<Rightarrow> (Return price, w1))
              else get_price_from_user (print ''Invalid price, please retry'' w1)))"
  by pat_completeness auto
termination
  by (relation "measure (\<lambda>w. length (stdin w))") (auto simp: print_def)

declare get_price_from_user.simps [simp del]

text \<open>\<^verbatim>\<open>get_product_details_from_user()\<close>.\<close>

definition get_product_details_from_user :: "world \<Rightarrow> record_dict outcome \<times> world" where
  "get_product_details_from_user w =
     (case input ''Please enter product name: '' w of
        (Return name, w1) \<Rightarrow>
          (case get_quantity_from_user w1 of
             (Return qty, w2) \<Rightarrow>
               (case get_price_from_user w2 of
                  (Return price, w3) \<Rightarrow>
                    (Return \<lparr>rec_product_name = Some name, rec_product_quantity = PInt qty,
                             rec_product_price = price, rec_date_updated = clock w3\<rparr>,
                     w3)
                | (Raise e, w3) \<Rightarrow> (Raise e, w3)
                | (Diverge, w3) \<Rightarrow> (Diverge, w3))
           | (Raise e, w2) \<Rightarrow> (Raise e, w2)
           | (Diverge, w2) \<Rightarrow> (Diverge, w2))
      | (Raise e, w1) \<Rightarrow> (Raise e, w1)
      | (Diverge, w1) \<Rightarrow> (Diverge, w1))"

text \<open>\<^verbatim>\<open>add_record()\<close>, the menu's \<^verbatim>\<open>a\<close>.\<close>

definition add_record :: "library \<Rightarrow> world \<Rightarrow> unit outcome \<times> world" where
  "add_record lib w =
     (case get_product_details_from_user w of
        (Return record, w1) \<Rightarrow>
          (case add_record_to_db lib record (table w1) of
             Inl e \<Rightarrow> (Raise e, w1)
           | Inr tbl \<Rightarrow> (Return (), w1\<lparr>table := tbl\<rparr>))
      | (Raise e, w1) \<Rightarrow> (Raise e, w1)
      | (Diverge, w1) \<Rightarrow> (Diverge, w1))"







section \<open>Properties of the price codec\<close>

lemma digit_char_props:
  assumes "n < 10"
  shows "is_digit (digit_char n)" and "digit_val (digit_char n) = int n"
proof -
  from assms consider "n = 0" | "n = 1" | "n = 2" | "n = 3" | "n = 4"
    | "n = 5" | "n = 6" | "n = 7" | "n = 8" | "n = 9"
    by atomize_elim arith
  then have "is_digit (digit_char n) \<and> digit_val (digit_char n) = int n"
    by cases (simp_all add: digit_char_def is_digit_def digit_val_def)
  then show "is_digit (digit_char n)" and "digit_val (digit_char n) = int n"
    by simp_all
qed

lemma digits_of_nat_all_digits: "list_all is_digit (digits_of_nat n)"
proof (induction n rule: digits_of_nat.induct)
  case (1 n)
  show ?case
  proof (cases "n < 10")
    case True
    then show ?thesis by (simp add: digits_of_nat.simps [of n] digit_char_props)
  next
    case False
    then have "list_all is_digit (digits_of_nat (n div 10))" using "1.IH" by simp
    moreover have "is_digit (digit_char (n mod 10))" by (simp add: digit_char_props)
    ultimately show ?thesis using False by (simp add: digits_of_nat.simps [of n])
  qed
qed

lemma digits_of_nat_nonempty: "digits_of_nat n \<noteq> []"
  by (simp add: digits_of_nat.simps [of n])

lemma dec_value_snoc: "dec_value (ds @ [c]) = dec_value ds * 10 + digit_val c"
  by (simp add: dec_value_def)

lemma dec_value_digits_of_nat: "dec_value (digits_of_nat n) = int n"
proof (induction n rule: digits_of_nat.induct)
  case (1 n)
  show ?case
  proof (cases "n < 10")
    case True
    then show ?thesis by (simp add: digits_of_nat.simps [of n] dec_value_def digit_char_props)
  next
    case False
    then have "dec_value (digits_of_nat (n div 10)) = int (n div 10)" using "1.IH" by simp
    moreover have "digit_val (digit_char (n mod 10)) = int (n mod 10)" by (simp add: digit_char_props)
    ultimately have "dec_value (digits_of_nat n) = int (n div 10) * 10 + int (n mod 10)"
      using False by (simp add: digits_of_nat.simps [of n] dec_value_snoc)
    also have "\<dots> = int n" by (simp add: zdiv_int zmod_int)
    finally show ?thesis .
  qed
qed

lemma digits_value_all_digits:
  "list_all is_digit ds \<Longrightarrow> digits_value acc ds = Some (foldl (\<lambda>a c. a * 10 + digit_val c) acc ds)"
  by (induction acc ds rule: digits_value.induct) simp_all

lemma digit_not_special:
  assumes "is_digit c"
  shows "\<not> is_space c" and "c \<noteq> CHR ''-''" and "c \<noteq> CHR ''+''" and "c \<noteq> CHR ''$''"
    and "c \<noteq> CHR ''.''" and "c \<noteq> CHR ''_''"
  using assms by (auto simp: is_digit_def is_space_def Let_def)

lemma strip_no_space_ends:
  assumes "s \<noteq> []" and "\<not> is_space (hd s)" and "\<not> is_space (last s)"
  shows "strip s = s"
proof -
  from assms have "dropWhile is_space s = s" by (cases s) simp_all
  moreover from assms have "dropWhile is_space (rev s) = rev s"
    by (cases "rev s") (simp_all add: hd_rev)
  ultimately show ?thesis by (simp add: strip_def)
qed

lemma py_int_digits:
  assumes "purely_numeric s" and "length s \<le> max_str_digits"
  shows "py_int s = Inr (dec_value s)"
proof -
  from assms obtain d ds where s: "s = d # ds" and d: "is_digit d" and ds: "list_all is_digit ds"
    by (cases s) (auto simp: purely_numeric_def)
  have "is_digit (last s)" using s d ds by (auto simp: list_all_iff)
  then have "strip s = s"
    using s d by (intro strip_no_space_ends) (simp_all add: digit_not_special)
  moreover have "digits_value (digit_val d) ds = Some (dec_value s)"
    using ds by (simp add: digits_value_all_digits dec_value_def s)
  moreover have "\<not> max_str_digits < length (filter is_digit s)"
    using assms(2) length_filter_le [of is_digit s] by linarith
  ultimately show ?thesis
    using s d by (simp add: py_int_def digit_not_special)
qed

lemma dec_value_zero_Cons: "dec_value (CHR ''0'' # ds) = dec_value ds"
  by (simp add: dec_value_def digit_val_def)

lemma filter_digits:
  "list_all is_digit s \<Longrightarrow> filter (\<lambda>c. c \<noteq> CHR ''$'' \<and> c \<noteq> CHR ''.'') s = s"
  by (induction s) (auto simp: digit_not_special)

lemma py_str_nonneg:
  assumes "0 \<le> c"
  shows "purely_numeric (py_str c)" and "dec_value (py_str c) = c"
  using assms
  by (simp_all add: py_str_def purely_numeric_def digits_of_nat_all_digits digits_of_nat_nonempty
      dec_value_digits_of_nat)

lemma digits_of_nat_length:
  "0 < k \<Longrightarrow> n < 10 ^ k \<Longrightarrow> length (digits_of_nat n) \<le> k"
proof (induction n arbitrary: k rule: digits_of_nat.induct)
  case (1 n)
  show ?case
  proof (cases "n < 10")
    case True
    with "1.prems" show ?thesis by (simp add: digits_of_nat.simps [of n])
  next
    case False
    obtain j where k: "k = Suc j" using "1.prems"(1) by (cases k) auto
    have "0 < j"
    proof (rule ccontr)
      assume "\<not> 0 < j"
      with k "1.prems"(2) False show False by simp
    qed
    moreover have "n div 10 < 10 ^ j" using "1.prems"(2) k by (simp add: less_mult_imp_div_less mult.commute)
    ultimately have "length (digits_of_nat (n div 10)) \<le> j" using "1.IH" False by simp
    with k False show ?thesis by (simp add: digits_of_nat.simps [of n])
  qed
qed


lemma py_str_length:
  assumes "0 \<le> c" and "c \<le> 99999"
  shows "length (py_str c) \<le> 5"
proof -
  have "nat c < 10 ^ 5" using assms by simp
  then have "length (digits_of_nat (nat c)) \<le> 5" by (intro digits_of_nat_length) simp_all
  with assms(1) show ?thesis by (simp add: py_str_def)
qed

lemma decode_encode_bounded:
  assumes "0 \<le> c" and "c \<le> 99999"
  shows "format_price_str_to_int (format_price_int_to_str c) = Inr c"
proof -
  define s where "s = py_str c"
  have num: "purely_numeric s" and val: "dec_value s = c"
    using assms(1) by (simp_all add: s_def py_str_nonneg)
  then have digs: "list_all is_digit s" and ne: "s \<noteq> []"
    by (simp_all add: purely_numeric_def)
  have len: "length s \<le> 5" using assms by (simp add: s_def py_str_length)
  have zero: "is_digit (CHR ''0'')" by (simp add: is_digit_def)
  consider (one) "length s = 1" | (two) "length s \<noteq> 1" "length s = 2"
    | (more) "length s \<noteq> 1" "length s \<noteq> 2" by blast
  then show ?thesis
  proof cases
    case one
    then have enc: "format_price_int_to_str c = ''$0.0'' @ s"
      by (simp add: format_price_int_to_str_def s_def)
    have "purely_numeric (''00'' @ s)" using digs zero by (simp add: purely_numeric_def)
    moreover have "length (''00'' @ s) \<le> max_str_digits"
      using len by (simp add: max_str_digits_def)
    ultimately have "py_int (''00'' @ s) = Inr (dec_value (''00'' @ s))" by (rule py_int_digits)
    also have "dec_value (''00'' @ s) = c" using val by (simp add: dec_value_zero_Cons)
    finally show ?thesis using digs by (simp add: enc format_price_str_to_int_def filter_digits)
  next
    case two
    then have enc: "format_price_int_to_str c = ''$0.'' @ s"
      by (simp add: format_price_int_to_str_def s_def)
    have "purely_numeric (''0'' @ s)" using digs zero by (simp add: purely_numeric_def)
    moreover have "length (''0'' @ s) \<le> max_str_digits"
      using len by (simp add: max_str_digits_def)
    ultimately have "py_int (''0'' @ s) = Inr (dec_value (''0'' @ s))" by (rule py_int_digits)
    also have "dec_value (''0'' @ s) = c" using val by (simp add: dec_value_zero_Cons)
    finally show ?thesis using digs by (simp add: enc format_price_str_to_int_def filter_digits)
  next
    case more
    define k where "k = length s - 2"
    from more have enc: "format_price_int_to_str c = ''$'' @ take k s @ ''.'' @ drop k s"
      by (simp add: format_price_int_to_str_def s_def k_def Let_def)
    have "list_all is_digit (take k s)" and "list_all is_digit (drop k s)"
      using digs by (auto simp: list_all_iff dest: in_set_takeD in_set_dropD)
    then have "filter (\<lambda>c. c \<noteq> CHR ''$'' \<and> c \<noteq> CHR ''.'') (format_price_int_to_str c) = s"
      by (simp add: enc filter_digits)
    moreover have "CHR ''.'' \<in> set (format_price_int_to_str c)" by (simp add: enc)
    moreover have "length s \<le> max_str_digits" using len by (simp add: max_str_digits_def)
    then have "py_int s = Inr c" using py_int_digits [OF num] val by simp
    ultimately show ?thesis by (simp add: format_price_str_to_int_def)
  qed
qed

text \<open>
  C4. For every number of cents \<open>c\<close> from 0 to 99999, decoding the encoding gives \<open>c\<close>
  back: \<open>format_price_str_to_int (format_price_int_to_str c)\<close> returns \<open>c\<close>.
\<close>

theorem price_roundtrip:
  "0 \<le> c \<Longrightarrow> c \<le> 99999 \<Longrightarrow> format_price_str_to_int (format_price_int_to_str c) = Inr c"
  by (rule decode_encode_bounded)

theorem price_roundtrip_witness:
  "(0::int) \<le> 150 \<and> (150::int) \<le> 99999
   \<and> format_price_str_to_int (format_price_int_to_str 150) = Inr 150"
proof -
  have a: "(0::int) \<le> 150" and b: "(150::int) \<le> 99999" by simp_all
  from price_roundtrip [OF a b] a b show ?thesis by blast
qed

section \<open>Evaluation rules\<close>

lemmas price_eval = format_price_str_to_int_def py_int_def strip_def is_space_def is_digit_def
  digit_val_def max_str_digits_def Let_def

text \<open>
  C5 on the code. The text \<open>-7\<close> has no decimal point and, its dollar signs deleted, is
  not purely numeric: it holds a minus sign. The decoder does not fail on it; it returns
  \<open>-700\<close>.
\<close>

theorem decode_price_accepts_sign:
  "CHR ''.'' \<notin> set ''-7'' \<and> \<not> purely_numeric (remaining_text ''-7'')
   \<and> format_price_str_to_int ''-7'' = Inr (- 700)"
  by (simp add: purely_numeric_def remaining_text_def price_eval)

lemma py_int_too_long:
  assumes "purely_numeric s" and "max_str_digits < length s"
  shows "py_int s = Inl ValueError"
proof -
  from assms obtain d ds where s: "s = d # ds" and d: "is_digit d" and ds: "list_all is_digit ds"
    by (cases s) (auto simp: purely_numeric_def)
  have "is_digit (last s)" using s d ds by (auto simp: list_all_iff)
  then have "strip s = s"
    using s d by (intro strip_no_space_ends) (simp_all add: digit_not_special)
  moreover have "digits_value (digit_val d) ds = Some (dec_value s)"
    using ds by (simp add: digits_value_all_digits dec_value_def s)
  moreover have "filter is_digit s = s" using s d ds by (simp add: list_all_iff)
  ultimately show ?thesis
    using s d assms(2) by (simp add: py_int_def digit_not_special)
qed

section \<open>Properties of the date codec\<close>

lemmas date_eval = strptime_mdY_def match_mdY_def month_alts_def day_alts_def year_alts_def
  slash_def nonzero_digit_def is_digit_def digit_val_def dec_value_def days_in_month_def
  is_leap_def strftime_mdY_def pad2_def py_str_def digits_of_nat.simps digit_char_def
  format_date_str_to_datetime_def format_date_datetime_to_str_def

text \<open>
  C6 on the code. \<open>format_date_str_to_datetime\<close> of \<open>3/4/2021\<close> is March 4, 2021 at 00:00,
  as the claim has it. \<open>format_date_datetime_to_str\<close> of that timestamp is \<open>03/04/2021\<close>,
  month and day padded to two digits, and not the string \<open>3/4/2021\<close> of the claim and of
  the function's docstring (\<^verbatim>\<open>m/d/yyyy\<close>).
\<close>

theorem date_codec_example:
  "format_date_str_to_datetime now (Some ''3/4/2021'')
     = Inr \<lparr>year = 2021, month = 3, day = 4, hour = 0, minute = 0, second = 0, microsecond = 0\<rparr>
   \<and> format_date_datetime_to_str app now
        (Some \<lparr>year = 2021, month = 3, day = 4, hour = 0, minute = 0, second = 0,
               microsecond = 0\<rparr>)
     = ''03/04/2021''
   \<and> ''03/04/2021'' \<noteq> ''3/4/2021''"
  by (simp add: date_eval)

subsection \<open>The encoder tells calendar days apart\<close>

lemma digits_of_nat_length_one: "n < 10 \<Longrightarrow> length (digits_of_nat n) = 1"
  by (simp add: digits_of_nat.simps [of n])

lemma digits_of_nat_length_two:
  assumes "10 \<le> n" and "n < 100"
  shows "length (digits_of_nat n) = 2"
proof -
  have "n div 10 < 10" using assms(2) by simp
  then have "length (digits_of_nat (n div 10)) = 1" by (rule digits_of_nat_length_one)
  with assms(1) show ?thesis by (simp add: digits_of_nat.simps [of n])
qed

lemma pad2_props:
  assumes "0 \<le> n" and "n < 100"
  shows "length (pad2 n) = 2" and "dec_value (pad2 n) = n"
proof -
  show "length (pad2 n) = 2"
  proof (cases "n < 10")
    case True
    with assms have "nat n < 10" by simp
    then have "length (digits_of_nat (nat n)) = 1" by (rule digits_of_nat_length_one)
    with True assms show ?thesis by (simp add: pad2_def py_str_def)
  next
    case False
    with assms have "10 \<le> nat n" "nat n < 100" by simp_all
    then have "length (digits_of_nat (nat n)) = 2" by (rule digits_of_nat_length_two)
    with False assms show ?thesis by (simp add: pad2_def py_str_def)
  qed
  show "dec_value (pad2 n) = n"
    using assms(1) by (simp add: pad2_def dec_value_zero_Cons py_str_nonneg)
qed

lemma strftime_mdY_inj:
  assumes "valid_date a" and "valid_date b" and "strftime_mdY a = strftime_mdY b"
  shows "date_part a = date_part b"
proof -
  have ma: "0 \<le> month a" "month a < 100" and da: "0 \<le> day a" "day a < 100"
    and ya: "0 \<le> year a"
    using assms(1) by (auto simp: valid_date_def days_in_month_def split: if_splits)
  have mb: "0 \<le> month b" "month b < 100" and db: "0 \<le> day b" "day b < 100"
    and yb: "0 \<le> year b"
    using assms(2) by (auto simp: valid_date_def days_in_month_def split: if_splits)
  have "pad2 (month a) @ (''/'' @ pad2 (day a) @ ''/'' @ py_str (year a))
      = pad2 (month b) @ (''/'' @ pad2 (day b) @ ''/'' @ py_str (year b))"
    using assms(3) by (simp add: strftime_mdY_def)
  moreover have "length (pad2 (month a)) = length (pad2 (month b))"
    using ma mb by (simp add: pad2_props)
  ultimately have m: "pad2 (month a) = pad2 (month b)"
    and rest: "pad2 (day a) @ (''/'' @ py_str (year a)) = pad2 (day b) @ (''/'' @ py_str (year b))"
    by simp_all
  have "length (pad2 (day a)) = length (pad2 (day b))" using da db by (simp add: pad2_props)
  with rest have d: "pad2 (day a) = pad2 (day b)" and y: "py_str (year a) = py_str (year b)"
    by simp_all
  from m have "dec_value (pad2 (month a)) = dec_value (pad2 (month b))" by simp
  then have "month a = month b" using ma mb by (simp add: pad2_props)
  moreover from d have "dec_value (pad2 (day a)) = dec_value (pad2 (day b))" by simp
  then have "day a = day b" using da db by (simp add: pad2_props)
  moreover from y have "dec_value (py_str (year a)) = dec_value (py_str (year b))" by simp
  then have "year a = year b" using ya yb by (simp add: py_str_nonneg)
  ultimately show ?thesis by (simp add: date_part_def)
qed

text \<open>
  C10. A call of \<open>format_date_datetime_to_str\<close> without an argument returns the formatting
  of the moment the module was loaded, at whatever moment \<open>now\<close> the call is made: two
  such calls of one run return the same string, and when the call is made on another
  calendar day than the load, the result is not what the call moment would format to.
  \<open>format_date_str_to_datetime\<close> without an argument, in contrast, returns the call
  moment. Loaded on March 4, 2021 and called on December 25, the encoder returns
  \<open>03/04/2021\<close>.
\<close>

theorem default_date_fixed_at_load:
  "format_date_datetime_to_str (import_app t_load) now None
     = format_date_datetime_to_str (import_app t_load) now (Some t_load)
   \<and> format_date_datetime_to_str (import_app t_load) now None
     = format_date_datetime_to_str (import_app t_load) later None
   \<and> (valid_date t_load \<and> valid_date now \<and> date_part now \<noteq> date_part t_load
      \<longrightarrow> format_date_datetime_to_str (import_app t_load) now None
          \<noteq> format_date_datetime_to_str (import_app t_load) now (Some now))
   \<and> format_date_str_to_datetime now None = Inr now
   \<and> format_date_datetime_to_str
        (import_app \<lparr>year = 2021, month = 3, day = 4, hour = 9, minute = 30, second = 0,
                     microsecond = 0\<rparr>)
        \<lparr>year = 2021, month = 12, day = 25, hour = 18, minute = 0, second = 0,
          microsecond = 0\<rparr> None
     = ''03/04/2021''"
proof (intro conjI impI)
  assume a: "valid_date t_load \<and> valid_date now \<and> date_part now \<noteq> date_part t_load"
  show "format_date_datetime_to_str (import_app t_load) now None
          \<noteq> format_date_datetime_to_str (import_app t_load) now (Some now)"
  proof
    assume "format_date_datetime_to_str (import_app t_load) now None
          = format_date_datetime_to_str (import_app t_load) now (Some now)"
    then have "strftime_mdY t_load = strftime_mdY now"
      by (simp add: format_date_datetime_to_str_def import_app_def)
    with a have "date_part t_load = date_part now" using strftime_mdY_inj by blast
    with a show False by simp
  qed
qed (simp_all add: date_eval import_app_def)

theorem default_date_fixed_at_load_witness:
  "valid_date \<lparr>year = 2021, month = 3, day = 4, hour = 9, minute = 30, second = 0,
               microsecond = 0\<rparr>
   \<and> valid_date \<lparr>year = 2021, month = 12, day = 25, hour = 18, minute = 0, second = 0,
                 microsecond = 0\<rparr>
   \<and> date_part \<lparr>year = 2021, month = 12, day = 25, hour = 18, minute = 0, second = 0,
                 microsecond = 0\<rparr>
     \<noteq> date_part \<lparr>year = 2021, month = 3, day = 4, hour = 9, minute = 30, second = 0,
                   microsecond = 0\<rparr>
   \<and> format_date_datetime_to_str
        (import_app \<lparr>year = 2021, month = 3, day = 4, hour = 9, minute = 30, second = 0,
                     microsecond = 0\<rparr>)
        \<lparr>year = 2021, month = 12, day = 25, hour = 18, minute = 0, second = 0,
          microsecond = 0\<rparr> None
     \<noteq> format_date_datetime_to_str
        (import_app \<lparr>year = 2021, month = 3, day = 4, hour = 9, minute = 30, second = 0,
                     microsecond = 0\<rparr>)
        \<lparr>year = 2021, month = 12, day = 25, hour = 18, minute = 0, second = 0,
          microsecond = 0\<rparr>
        (Some \<lparr>year = 2021, month = 12, day = 25, hour = 18, minute = 0, second = 0,
               microsecond = 0\<rparr>)"
proof -
  let ?load = "\<lparr>year = 2021, month = 3, day = 4, hour = 9, minute = 30, second = 0,
                 microsecond = 0\<rparr>"
  let ?call = "\<lparr>year = 2021, month = 12, day = 25, hour = 18, minute = 0, second = 0,
                 microsecond = 0\<rparr>"
  have a: "valid_date ?load" and b: "valid_date ?call"
    by (simp_all add: valid_date_def days_in_month_def)
  have c: "date_part ?call \<noteq> date_part ?load" by (simp add: date_part_def)
  from default_date_fixed_at_load [of ?load ?call] a b c
  have "format_date_datetime_to_str (import_app ?load) ?call None
      \<noteq> format_date_datetime_to_str (import_app ?load) ?call (Some ?call)"
    by blast
  with a b c show ?thesis by blast
qed

section \<open>Properties of the upsert and the import\<close>

lemmas table_eval = add_record_to_db_def Product_create_def IntegerField_db_value_def
  sqlite_bind_def sqlite_integer_def next_id_def Product_get_by_name_def Product_save_def
  instance_of_def cell_value_def datetime_gt_def datetime_key_def Let_def

text \<open>
  C1 on the code. Upserting \<open>Widget\<close> (quantity 10, price 500) into the empty table
  creates row 1; upserting \<open>Widget\<close> again (quantity 20, price 600, an earlier date)
  leaves row 1 as it was and creates row 2: \<open>Product.create\<close> raises no
  \<^verbatim>\<open>IntegrityError\<close> for a name that exists, so the handler does not run. Where the
  handler does run (a \<^verbatim>\<open>None\<close> quantity for the same name), it ends in the exception for
  a tuple: the assignments store tuples.
\<close>

theorem upsert_same_name_adds_row:
  "add_record_to_db lib
      \<lparr>rec_product_name = Some ''Widget'', rec_product_quantity = PInt 10,
       rec_product_price = 500,
       rec_date_updated = \<lparr>year = 2021, month = 3, day = 4, hour = 0, minute = 0, second = 0,
                             microsecond = 0\<rparr>\<rparr> []
     = Inr [\<lparr>product_id = 1, product_name = ''Widget'', product_quantity = CInt 10,
              product_price = 500,
              date_updated = \<lparr>year = 2021, month = 3, day = 4, hour = 0, minute = 0,
                               second = 0, microsecond = 0\<rparr>\<rparr>]
   \<and> add_record_to_db lib
      \<lparr>rec_product_name = Some ''Widget'', rec_product_quantity = PInt 20,
       rec_product_price = 600,
       rec_date_updated = \<lparr>year = 2021, month = 3, day = 3, hour = 0, minute = 0, second = 0,
                             microsecond = 0\<rparr>\<rparr>
      [\<lparr>product_id = 1, product_name = ''Widget'', product_quantity = CInt 10,
              product_price = 500,
              date_updated = \<lparr>year = 2021, month = 3, day = 4, hour = 0, minute = 0,
                               second = 0, microsecond = 0\<rparr>\<rparr>]
     = Inr [\<lparr>product_id = 1, product_name = ''Widget'', product_quantity = CInt 10,
              product_price = 500,
              date_updated = \<lparr>year = 2021, month = 3, day = 4, hour = 0, minute = 0,
                               second = 0, microsecond = 0\<rparr>\<rparr>,
            \<lparr>product_id = 2, product_name = ''Widget'', product_quantity = CInt 20,
              product_price = 600,
              date_updated = \<lparr>year = 2021, month = 3, day = 3, hour = 0, minute = 0,
                               second = 0, microsecond = 0\<rparr>\<rparr>]
   \<and> add_record_to_db lib
      \<lparr>rec_product_name = Some ''Widget'', rec_product_quantity = PNone,
       rec_product_price = 600,
       rec_date_updated = \<lparr>year = 2021, month = 3, day = 3, hour = 0, minute = 0, second = 0,
                             microsecond = 0\<rparr>\<rparr>
      [\<lparr>product_id = 1, product_name = ''Widget'', product_quantity = CInt 10,
              product_price = 500,
              date_updated = \<lparr>year = 2021, month = 3, day = 4, hour = 0, minute = 0,
                               second = 0, microsecond = 0\<rparr>\<rparr>]
     = Inl (tuple_error lib)"
  by (simp add: table_eval)

text \<open>
  C2 on the code. Importing a seed file with two rows named \<open>Widget\<close> into the empty
  table stores two rows named \<open>Widget\<close>.
\<close>

theorem import_same_name_twice:
  "map product_name (table (snd (load_data_from_csv lib
      \<lparr>table = [], stdin = [], stdout = [],
       clock = \<lparr>year = 2021, month = 3, day = 4, hour = 0, minute = 0, second = 0,
                 microsecond = 0\<rparr>,
       inventory_csv = Some
         [\<lparr>csv_product_name = Some ''Widget'', csv_product_price = Some ''$1.00'',
           csv_product_quantity = Some ''10'', csv_date_updated = Some ''1/1/2020''\<rparr>,
          \<lparr>csv_product_name = Some ''Widget'', csv_product_price = Some ''$2.00'',
           csv_product_quantity = Some ''20'', csv_date_updated = Some ''1/2/2020''\<rparr>]\<rparr>)))
     = [''Widget'', ''Widget'']"
  by (simp add: load_data_from_csv_def table_eval price_eval date_eval)

text \<open>
  A quantity cell that is no integer does not stop the import: the row is stored with
  what the column makes of the text, and the next row follows.
\<close>

lemma import_keeps_text_quantity:
  "map product_quantity (table (snd (load_data_from_csv lib
      \<lparr>table = [], stdin = [], stdout = [],
       clock = \<lparr>year = 2021, month = 3, day = 4, hour = 0, minute = 0, second = 0,
                 microsecond = 0\<rparr>,
       inventory_csv = Some
         [\<lparr>csv_product_name = Some ''Widget'', csv_product_price = Some ''$1.00'',
           csv_product_quantity = Some ''ten'', csv_date_updated = Some ''1/1/2020''\<rparr>,
          \<lparr>csv_product_name = Some ''Gadget'', csv_product_price = Some ''$2.00'',
           csv_product_quantity = Some ''20'', csv_date_updated = Some ''1/2/2020''\<rparr>]\<rparr>)))
     = [text_affinity lib ''ten'', CInt 20]"
  by (simp add: load_data_from_csv_def table_eval price_eval date_eval)

section \<open>Properties of the commands\<close>

text \<open>
  C7 on the code. The line \<open>a1\<close> passes the search of the price prompt, which looks
  for a digit anywhere in the line, and \<open>format_price_str_to_int\<close> then raises
  \<^verbatim>\<open>ValueError\<close>, which leaves \<open>get_price_from_user\<close> uncaught.
\<close>

theorem price_prompt_raises:
  "re_search_price ''a1''
   \<and> fst (get_price_from_user
        \<lparr>table = [], stdin = [''a1''], stdout = [],
         clock = \<lparr>year = 2021, month = 3, day = 4, hour = 0, minute = 0, second = 0,
                   microsecond = 0\<rparr>,
         inventory_csv = None\<rparr>) = Raise ValueError"
  by (simp add: get_price_from_user.simps match_price_here_def opt_char_def
      starts_with_digit_def price_eval print_def)

text \<open>
  C3 on the code. At the interactive add, the line \<open>-5\<close> passes the search of the price
  prompt (it holds a digit), the decoder returns \<open>-500\<close> for it, and the row is stored
  with the price \<open>-500\<close>.
\<close>

theorem negative_price_stored:
  "re_search_price ''-5''
   \<and> format_price_str_to_int ''-5'' = Inr (- 500)
   \<and> fst (add_record lib
        \<lparr>table = [], stdin = [''Widget'', ''10'', ''-5''], stdout = [],
         clock = \<lparr>year = 2021, month = 3, day = 4, hour = 0, minute = 0, second = 0,
                   microsecond = 0\<rparr>,
         inventory_csv = None\<rparr>) = Return ()
   \<and> map product_price (table (snd (add_record lib
        \<lparr>table = [], stdin = [''Widget'', ''10'', ''-5''], stdout = [],
         clock = \<lparr>year = 2021, month = 3, day = 4, hour = 0, minute = 0, second = 0,
                   microsecond = 0\<rparr>,
         inventory_csv = None\<rparr>))) = [- 500]"
  by (simp add: add_record_def get_product_details_from_user_def input_def
      get_quantity_from_user.simps get_price_from_user.simps match_price_here_def opt_char_def
      starts_with_digit_def price_eval print_def table_eval)

text \<open>
  C9. When \<^verbatim>\<open>./inventory.csv\<close> does not exist, \<open>load_data_from_csv\<close> prints its notice and
  returns; so does \<open>initialize\<close>; the table is as it was.
\<close>

theorem seed_file_absent:
  "inventory_csv w = None \<Longrightarrow>
     load_data_from_csv lib w
       = (Return (),
          w\<lparr>stdout := stdout w
               @ [''inventory.csv file not found, no current data loaded to database'']\<rparr>)
     \<and> initialize lib w = load_data_from_csv lib w
     \<and> table (snd (load_data_from_csv lib w)) = table w"
  by (simp add: load_data_from_csv_def initialize_def print_def)

theorem seed_file_absent_witness:
  "inventory_csv \<lparr>table = [], stdin = [], stdout = [],
       clock = \<lparr>year = 2021, month = 3, day = 4, hour = 0, minute = 0, second = 0,
                 microsecond = 0\<rparr>, inventory_csv = None\<rparr> = None
   \<and> fst (load_data_from_csv \<lparr>text_affinity = CText, tuple_error = TypeError\<rparr>
       \<lparr>table = [], stdin = [], stdout = [],
        clock = \<lparr>year = 2021, month = 3, day = 4, hour = 0, minute = 0, second = 0,
                  microsecond = 0\<rparr>, inventory_csv = None\<rparr>) = Return ()"
proof -
  let ?w = "\<lparr>table = [], stdin = [], stdout = [],
       clock = \<lparr>year = 2021, month = 3, day = 4, hour = 0, minute = 0, second = 0,
                 microsecond = 0\<rparr>, inventory_csv = None\<rparr>"
  let ?lib = "\<lparr>text_affinity = CText, tuple_error = TypeError\<rparr>"
  have h: "inventory_csv ?w = None" by simp
  from seed_file_absent [OF h, of ?lib] have "fst (load_data_from_csv ?lib ?w) = Return ()"
    by (metis fst_conv)
  with h show ?thesis by blast
qed

section \<open>Viewing a product\<close>

subsection \<open>The lookup by key\<close>




lemma Product_get_by_id_sound:
  assumes "Product_get_by_id i tbl = Inr p"
  shows "p \<in> set tbl \<and> product_id p = i"
proof -
  from assms have "find (\<lambda>r. product_id r = i) tbl = Some p"
    by (auto simp: Product_get_by_id_def split: if_splits option.splits)
  then show ?thesis by (auto simp: find_Some_iff)
qed

subsection \<open>New keys are new\<close>

lemma max_id_bound: "r \<in> set tbl \<Longrightarrow> product_id r \<le> max_id tbl"
  by (induction tbl rule: max_id.induct) auto

lemma next_id_fresh: "next_id tbl \<notin> product_id ` set tbl"
proof
  assume "next_id tbl \<in> product_id ` set tbl"
  then obtain r where r: "r \<in> set tbl" and "product_id r = next_id tbl" by auto
  moreover from r have "tbl \<noteq> []" by auto
  ultimately have "product_id r = max_id tbl + 1" by (simp add: next_id_def)
  with max_id_bound [OF r] show False by simp
qed

lemma Product_create_keys:
  assumes "Product_create lib name quantity price date tbl = Inr (row, tbl')"
    and "distinct (map product_id tbl)"
  shows "distinct (map product_id tbl')"
proof -
  from assms(1) have "tbl' = tbl @ [row] \<and> product_id row = next_id tbl"
    by (auto simp: Product_create_def Let_def split: sum.splits if_splits option.splits)
  with assms(2) next_id_fresh [of tbl] show ?thesis by auto
qed

lemma Product_save_keys:
  assumes "Product_save lib x tbl = Inr tbl'"
  shows "map product_id tbl' = map product_id tbl"
  using assms
  by (auto simp: Product_save_def split: prod.splits attr.splits sum.splits if_splits
      option.splits)

lemma add_record_to_db_keys:
  assumes "add_record_to_db lib record tbl = Inr tbl'" and "distinct (map product_id tbl)"
  shows "distinct (map product_id tbl')"
proof (cases "Product_create lib (rec_product_name record) (rec_product_quantity record)
               (rec_product_price record) (rec_date_updated record) tbl")
  case (Inr rt)
  obtain row t where rt: "rt = (row, t)" by (cases rt)
  with Inr assms(1) have "t = tbl'" by (simp add: add_record_to_db_def)
  with Inr rt assms(2) show ?thesis using Product_create_keys by blast
next
  case (Inl e)
  with assms(1) obtain x where "Product_save lib x tbl = Inr tbl'"
    by (auto simp: add_record_to_db_def Let_def split: if_splits sum.splits)
  then have "map product_id tbl' = map product_id tbl" by (rule Product_save_keys)
  with assms(2) show ?thesis by simp
qed

text \<open>The writes keep what the storage engine guarantees of the keys.\<close>

lemma max_id_member: "tbl \<noteq> [] \<Longrightarrow> max_id tbl \<in> product_id ` set tbl"
  by (induction tbl rule: max_id.induct) (auto simp: max_def)

lemma Product_create_primary_key_ok:
  assumes "Product_create lib name quantity price date tbl = Inr (row, tbl')"
    and "primary_key_ok tbl" and "max_id tbl < 2 ^ 63 - 1"
  shows "primary_key_ok tbl'"
proof -
  from assms(1) have shape: "tbl' = tbl @ [row]" "product_id row = next_id tbl"
    by (auto simp: Product_create_def Let_def split: sum.splits if_splits option.splits)
  have "sqlite_integer (next_id tbl)"
  proof (cases "tbl = []")
    case True
    then show ?thesis by (simp add: next_id_def sqlite_integer_def)
  next
    case False
    then obtain r where "r \<in> set tbl" "product_id r = max_id tbl"
      using max_id_member [of tbl] by auto
    with assms(2) have "- (2 ^ 63) \<le> max_id tbl"
      by (auto simp: primary_key_ok_def list_all_iff sqlite_integer_def)
    with assms(3) False show ?thesis by (simp add: next_id_def sqlite_integer_def)
  qed
  moreover have "distinct (map product_id tbl')"
    using assms(1,2) Product_create_keys by (auto simp: primary_key_ok_def)
  ultimately show ?thesis using assms(2) shape by (simp add: primary_key_ok_def)
qed

lemma add_record_to_db_primary_key_ok:
  assumes "add_record_to_db lib record tbl = Inr tbl'"
    and "primary_key_ok tbl" and "max_id tbl < 2 ^ 63 - 1"
  shows "primary_key_ok tbl'"
proof (cases "Product_create lib (rec_product_name record) (rec_product_quantity record)
               (rec_product_price record) (rec_date_updated record) tbl")
  case (Inr rt)
  obtain row t where rt: "rt = (row, t)" by (cases rt)
  with Inr assms(1) have "t = tbl'" by (simp add: add_record_to_db_def)
  with Inr rt assms(2,3) show ?thesis using Product_create_primary_key_ok by blast
next
  case (Inl e)
  with assms(1) obtain x where "Product_save lib x tbl = Inr tbl'"
    by (auto simp: add_record_to_db_def Let_def split: if_splits sum.splits)
  then have "map product_id tbl' = map product_id tbl" by (rule Product_save_keys)
  then have d: "distinct (map product_id tbl') = distinct (map product_id tbl)"
    and s: "product_id ` set tbl' = product_id ` set tbl" by (simp_all flip: set_map)
  from assms(2) have "\<forall>i \<in> product_id ` set tbl. sqlite_integer i"
    by (auto simp: primary_key_ok_def list_all_iff)
  with s have "\<forall>i \<in> product_id ` set tbl'. sqlite_integer i" by simp
  then have "list_all (\<lambda>r. sqlite_integer (product_id r)) tbl'"
    by (auto simp: list_all_iff)
  with d assms(2) show ?thesis by (simp add: primary_key_ok_def)
qed

subsection \<open>The command\<close>






end
